theory Spec2Isabelle
  imports Complex_Main
begin

section \<open>The taxi dashboard front end (web/cabdash.js)\<close>

text \<open>
  The front end keeps a registry of active rides (the global object \<open>rides\<close>), a handful
  of running totals, and a container of at most nine ride cards. Every global of the
  script is a field of the record \<open>state\<close> below; every function of the script that
  reads or writes a global takes the state and returns the new one.

  Modelling decisions, each visible in the definitions:
  \<^item> JavaScript numbers are IEEE doubles. Finite values are modelled exactly
    (\<open>rat\<close> for meter readings, \<open>int\<close> for counts); the results of the two unguarded
    divisions are values of \<open>jsnum\<close>, which has the non-finite results of a division
    by zero. Rounding of doubles and the text produced by \<open>toFixed\<close> are not modelled.
  \<^item> The registry \<open>rides\<close> is a plain object used as a dictionary. It is modelled by
    its own properties in creation order (\<open>object_keys\<close> is the order in which
    \<open>Object.keys\<close> lists them) and by its prototype: \<open>Object.prototype\<close>, or the
    event that an assignment to \<open>rides["__proto__"]\<close> has put in its place. A read
    \<open>rides[k]\<close> goes through the own properties and then through the prototype chain
    (\<open>rides_get\<close>); an assignment \<open>rides[k] = ride\<close> is \<open>rides_put\<close>. Ride
    identifiers are property keys, hence strings.
  \<^item> An event is a record with all eight fields of \<open>rideKeys\<close>. A coordinate is a
    number or a numeric string; the model keeps the text that \<open>toString\<close> gives and
    whether the value is truthy.
  \<^item> Wall-clock readings (\<open>lastRefresh\<close>, \<open>lag\<close>, the message rate) are left out.
  \<^item> Of the page, the model keeps the children of \<open>containerDiv\<close> (the cards), the
    opacity of the alert element, the messages flashed into it (as a log), and the
    three statistic labels written from the totals. The alert element is taken to
    exist.
\<close>

subsection \<open>Ride events\<close>

datatype coordinate = Coordinate (coord_text: string) (coord_truthy: bool)

record ride =
  ride_id :: string
  ride_status :: string
  timestamp :: string
  latitude :: coordinate
  longitude :: coordinate
  meter_reading :: rat
  passenger_count :: int
  sequenceNumber :: int

subsection \<open>Objects used as dictionaries\<close>

text \<open>The own properties of an object, in the order of their creation; \<open>obj_get\<close>
  looks among them only.\<close>

type_synonym 'v js_object = "(string \<times> 'v) list"

fun obj_get :: "'v js_object \<Rightarrow> string \<Rightarrow> 'v option" where
  "obj_get [] k = None"
| "obj_get (p # ps) k = (if fst p = k then Some (snd p) else obj_get ps k)"

text \<open>Writing an own property: an existing one keeps its place, a new one is created
  last.\<close>

fun obj_set :: "string \<Rightarrow> 'v \<Rightarrow> 'v js_object \<Rightarrow> 'v js_object" where
  "obj_set k v [] = [(k, v)]"
| "obj_set k v (p # ps) = (if fst p = k then (k, v) # ps else p # obj_set k v ps)"

fun obj_delete :: "string \<Rightarrow> 'v js_object \<Rightarrow> 'v js_object" where
  "obj_delete k [] = []"
| "obj_delete k (p # ps) = (if fst p = k then obj_delete k ps else p # obj_delete k ps)"

text \<open>A property key is an array index when it is the canonical decimal text of an
  integer from 0 to \<open>2^32 - 2\<close>.\<close>

definition is_digit :: "char \<Rightarrow> bool" where
  "is_digit c = ((48::int) \<le> of_char c \<and> (of_char c :: int) \<le> 57)"

definition decimal_val :: "string \<Rightarrow> int" where
  "decimal_val s = foldl (\<lambda>n c. 10 * n + (of_char c - 48)) 0 s"

definition canonical_digits :: "string \<Rightarrow> bool" where
  "canonical_digits s =
     (case s of
        [] \<Rightarrow> False
      | c # cs \<Rightarrow> list_all is_digit s \<and> (if c = CHR ''0'' then cs = [] else True))"

definition array_index :: "string \<Rightarrow> int option" where
  "array_index s =
     (if canonical_digits s \<and> decimal_val s < 4294967295 then Some (decimal_val s) else None)"

definition index_val :: "string \<Rightarrow> int" where
  "index_val k = (case array_index k of Some n \<Rightarrow> n | None \<Rightarrow> 0)"

definition is_index :: "string \<Rightarrow> bool" where
  "is_index k = (case array_index k of Some n \<Rightarrow> True | None \<Rightarrow> False)"

text \<open>\<open>Object.keys(obj)\<close>: the array indices in ascending numeric order, then the other
  keys in the order of their creation.\<close>

definition object_keys :: "'v js_object \<Rightarrow> string list" where
  "object_keys obj =
     sort_key index_val (filter is_index (map fst obj))
       @ filter (\<lambda>k. \<not> is_index k) (map fst obj)"

text \<open>\<open>xs.slice(start)\<close>: a negative start counts from the end.\<close>

definition js_slice :: "int \<Rightarrow> 'a list \<Rightarrow> 'a list" where
  "js_slice start xs =
     (let len = int (length xs);
          k = (if start < 0 then max (len + start) 0 else min start len)
      in drop (nat k) xs)"

subsection \<open>Numbers that a division can produce\<close>

datatype jsnum = Finite rat | NaN | PosInfinity | NegInfinity

text \<open>\<open>a / b\<close> on finite doubles, the divisor never being \<open>-0\<close> here (both divisors
  are sums and differences of counts starting from \<open>0\<close>).\<close>

definition js_div :: "rat \<Rightarrow> rat \<Rightarrow> jsnum" where
  "js_div a b =
     (if b = 0 then (if a = 0 then NaN else if 0 < a then PosInfinity else NegInfinity)
      else Finite (a / b))"

subsection \<open>The page and the globals\<close>

record notification =
  n_title :: string
  n_icon :: string
  n_ride_id :: string
  n_latlng :: string

record card =
  card_index :: nat
  card_ride :: ride

record state =
  rides :: "ride js_object"
  ridesProto :: "ride option"
  totalMeter :: rat
  totalUpdates :: int
  totalPassengers :: int
  avgDensity :: jsnum
  meterPerPassenger :: rat
  messageSeq :: int
  activeRides :: int
  ws :: "nat option"
  cards :: "card list"
  alertOpacity :: nat
  flashed :: "notification list"
  activeLabel :: "int option"
  meterLabel :: "rat option"
  passengersLabel :: "(int \<times> jsnum \<times> jsnum) option"

definition maxNumRideCards :: nat where
  "maxNumRideCards = 9"

text \<open>The globals as the script initialises them when it is loaded; \<open>ws\<close> holds the
  \<open>readyState\<close> of the current socket (0 connecting, 1 open, 2 closing, 3 closed), or
  \<open>None\<close> for \<open>undefined\<close>; \<open>ridesProto\<close> is \<open>None\<close> while the prototype of the
  object in \<open>rides\<close> is \<open>Object.prototype\<close>.\<close>

definition page_load :: state where
  "page_load =
     \<lparr> rides = [], ridesProto = None, totalMeter = 0, totalUpdates = 0, totalPassengers = 0,
       avgDensity = Finite 0, meterPerPassenger = 0, messageSeq = 1, activeRides = 0,
       ws = None, cards = [], alertOpacity = 0, flashed = [],
       activeLabel = None, meterLabel = None, passengersLabel = None \<rparr>"

subsection \<open>Reading and writing the registry object\<close>

text \<open>What a read \<open>rides[k]\<close> can give: nothing, a ride, or a value that is not a ride,
  of which only the truthiness matters.\<close>

datatype js_value = JSUndefined | RideObject ride | OtherValue bool

definition truthy :: "js_value \<Rightarrow> bool" where
  "truthy v = (case v of JSUndefined \<Rightarrow> False | RideObject r \<Rightarrow> True | OtherValue b \<Rightarrow> b)"

text \<open>The properties of \<open>Object.prototype\<close> in a browser. All are functions, except the
  accessor \<open>__proto__\<close>, which is treated where it is read and written.\<close>

definition object_prototype_names :: "string list" where
  "object_prototype_names =
     [''constructor'', ''__defineGetter__'', ''__defineSetter__'', ''hasOwnProperty'',
      ''__lookupGetter__'', ''__lookupSetter__'', ''isPrototypeOf'',
      ''propertyIsEnumerable'', ''toString'', ''valueOf'', ''__proto__'',
      ''toLocaleString'']"

definition object_prototype_get :: "string \<Rightarrow> js_value" where
  "object_prototype_get k =
     (if k \<in> set object_prototype_names then OtherValue True else JSUndefined)"

text \<open>The own properties of a stored event: the fields of the feed and the sequence
  number. A string is truthy unless empty, a number unless zero.\<close>

definition ride_field :: "ride \<Rightarrow> string \<Rightarrow> js_value" where
  "ride_field p k =
     (if k = ''ride_id'' then OtherValue (ride_id p \<noteq> [])
      else if k = ''ride_status'' then OtherValue (ride_status p \<noteq> [])
      else if k = ''timestamp'' then OtherValue (timestamp p \<noteq> [])
      else if k = ''latitude'' then OtherValue (coord_truthy (latitude p))
      else if k = ''longitude'' then OtherValue (coord_truthy (longitude p))
      else if k = ''meter_reading'' then OtherValue (meter_reading p \<noteq> 0)
      else if k = ''passenger_count'' then OtherValue (passenger_count p \<noteq> 0)
      else if k = ''sequenceNumber'' then OtherValue (sequenceNumber p \<noteq> 0)
      else JSUndefined)"

text \<open>What \<open>rides[k]\<close> finds when \<open>k\<close> is not an own property. With \<open>Object.prototype\<close>
  as the prototype, the getter of \<open>__proto__\<close> gives that object. With an event \<open>p\<close> as
  the prototype, the event's own properties come first, the getter of \<open>__proto__\<close> gives
  \<open>p\<close>, and the rest is inherited from \<open>Object.prototype\<close>.\<close>

definition inherited_get :: "state \<Rightarrow> string \<Rightarrow> js_value" where
  "inherited_get s k =
     (case ridesProto s of
        None \<Rightarrow> object_prototype_get k
      | Some p \<Rightarrow>
          (case ride_field p k of
             JSUndefined \<Rightarrow>
               (if k = ''__proto__'' then RideObject p else object_prototype_get k)
           | RideObject r \<Rightarrow> RideObject r
           | OtherValue b \<Rightarrow> OtherValue b))"

definition rides_get :: "state \<Rightarrow> string \<Rightarrow> js_value" where
  "rides_get s k =
     (case obj_get (rides s) k of
        Some r \<Rightarrow> RideObject r
      | None \<Rightarrow> inherited_get s k)"

text \<open>\<open>rides[k] = ride\<close>. An own property is overwritten. Otherwise the setter of
  \<open>__proto__\<close> makes the event the prototype and creates no property; any other name
  becomes a new own property (the inherited ones are writable data properties).\<close>

definition rides_put :: "string \<Rightarrow> ride \<Rightarrow> state \<Rightarrow> state" where
  "rides_put k v s =
     (if k = ''__proto__'' \<and> obj_get (rides s) k = None
      then s\<lparr> ridesProto := Some v \<rparr>
      else s\<lparr> rides := obj_set k v (rides s) \<rparr>)"

subsection \<open>The functions of the script\<close>

text \<open>In the last branch of \<open>updateMeterTotal\<close> a truthy value that is not a ride has no
  meter reading, and the source would add NaN to the total. The totals of the model are
  finite and stay as they are there; \<open>processRide\<close> reaches the branch only after
  \<open>sequence\<close> has stored the event under its own identifier, when the read gives that
  event (lemma \<open>sequence_stores_event\<close>).\<close>

definition updateMeterTotal :: "ride \<Rightarrow> bool \<Rightarrow> state \<Rightarrow> state" where
  "updateMeterTotal ride isNewRide s =
     (if ride_status ride = ''dropoff'' then
        s\<lparr> totalPassengers := totalPassengers s - passenger_count ride,
           totalMeter := totalMeter s - meter_reading ride \<rparr>
      else if isNewRide then
        s\<lparr> totalPassengers := totalPassengers s + passenger_count ride,
           totalMeter := totalMeter s + meter_reading ride \<rparr>
      else
        (case rides_get s (ride_id ride) of
           RideObject existingRide \<Rightarrow>
             s\<lparr> totalMeter :=
                  totalMeter s + (meter_reading ride - meter_reading existingRide) \<rparr>
         | JSUndefined \<Rightarrow> s
         | OtherValue b \<Rightarrow> s))"

definition updateStats :: "ride \<Rightarrow> bool \<Rightarrow> state \<Rightarrow> state" where
  "updateStats ride isNewRide s =
     (let s1 = s\<lparr> totalUpdates := totalUpdates s + 1 \<rparr>;
          s2 = updateMeterTotal ride isNewRide s1;
          s3 = s2\<lparr> avgDensity :=
                     js_div (of_int (totalPassengers s2)) (of_int (activeRides s2)) \<rparr>;
          mpp = js_div (totalMeter s3) (of_int (totalPassengers s3))
      in s3\<lparr> activeLabel := Some (activeRides s3),
              meterLabel := Some (totalMeter s3),
              passengersLabel := Some (totalPassengers s3, avgDensity s3, mpp) \<rparr>)"

definition clearCards :: "state \<Rightarrow> state" where
  "clearCards s = s\<lparr> cards := [], alertOpacity := 0 \<rparr>"

text \<open>\<open>sequence\<close> writes the sequence number into the event object and stores that
  object; the caller goes on with the same object.\<close>

definition sequence :: "ride \<Rightarrow> state \<Rightarrow> ride \<times> state" where
  "sequence ride s =
     (let ride' = ride\<lparr> sequenceNumber := messageSeq s \<rparr>;
          s1 = s\<lparr> messageSeq := messageSeq s + 1 \<rparr>
      in (ride', rides_put (ride_id ride) ride' s1))"

fun indexOf :: "char \<Rightarrow> string \<Rightarrow> int" where
  "indexOf c [] = - 1"
| "indexOf c (x # xs) =
     (if x = c then 0 else (let i = indexOf c xs in if i < 0 then - 1 else i + 1))"

definition formatCoordinate :: "string \<Rightarrow> string option" where
  "formatCoordinate coord =
     (if coord = [] then None
      else Some (take (nat (indexOf (CHR ''.'') coord + 5)) coord))"

definition template_text :: "string option \<Rightarrow> string" where
  "template_text x = (case x of None \<Rightarrow> ''undefined'' | Some t \<Rightarrow> t)"

definition flash_of :: "ride \<Rightarrow> notification" where
  "flash_of ride =
     \<lparr> n_title = ride_status ride,
       n_icon = (if ride_status ride = ''pickup'' then ''directions_run'' else ''done''),
       n_ride_id = ride_id ride,
       n_latlng = template_text (formatCoordinate (coord_text (latitude ride))) @ '','' @
                  template_text (formatCoordinate (coord_text (longitude ride))) \<rparr>"

definition flashMessage :: "ride \<Rightarrow> state \<Rightarrow> state" where
  "flashMessage ride s = s\<lparr> flashed := flashed s @ [flash_of ride], alertOpacity := 1 \<rparr>"

definition processRide :: "ride \<Rightarrow> state \<Rightarrow> state" where
  "processRide ride s =
     (if \<not> truthy (rides_get s (ride_id ride)) then
        (let s1 = s\<lparr> activeRides := activeRides s + 1 \<rparr>;
             (ride', s2) = sequence ride s1
         in updateStats ride' True s2)
      else if ride_status ride = ''dropoff'' then
        (if \<not> truthy (rides_get s (ride_id ride)) then updateStats ride False s
         else
           (let s1 = flashMessage ride s;
                s2 = s1\<lparr> activeRides := activeRides s1 - 1 \<rparr>;
                s3 = s2\<lparr> rides := obj_delete (ride_id ride) (rides s2) \<rparr>
            in updateStats ride False s3))
      else
        (let s1 = (if ride_status ride = ''pickup'' then flashMessage ride s else s);
             (ride', s2) = sequence ride s1
         in updateStats ride' False s2))"

text \<open>\<open>refreshCard\<close>: while the container has fewer than nine children a new card is
  appended; afterwards the elements of the first card with that index are rewritten.\<close>

fun rewrite_card :: "nat \<Rightarrow> ride \<Rightarrow> card list \<Rightarrow> card list" where
  "rewrite_card i r [] = []"
| "rewrite_card i r (c # cs) =
     (if card_index c = i then c\<lparr> card_ride := r \<rparr> # cs else c # rewrite_card i r cs)"

definition makeCard :: "ride \<Rightarrow> nat \<Rightarrow> card" where
  "makeCard ride index = \<lparr> card_index = index, card_ride = ride \<rparr>"

definition refreshCard :: "ride \<Rightarrow> nat \<Rightarrow> state \<Rightarrow> state" where
  "refreshCard ride cardIndex s =
     (if length (cards s) < maxNumRideCards
      then s\<lparr> cards := cards s @ [makeCard ride cardIndex] \<rparr>
      else s\<lparr> cards := rewrite_card cardIndex ride (cards s) \<rparr>)"

definition clearStats :: "state \<Rightarrow> state" where
  "clearStats s =
     s\<lparr> totalMeter := 0, totalUpdates := 0, totalPassengers := 0, avgDensity := Finite 0,
        meterPerPassenger := 0, activeRides := 0, rides := [], ridesProto := None,
        messageSeq := 0 \<rparr>"

definition connect :: "state \<Rightarrow> state" where
  "connect s =
     (if ws s = Some 1 then s\<lparr> ws := None, rides := [], ridesProto := None \<rparr>
      else clearCards (clearStats (s\<lparr> ws := Some 0 \<rparr>)))"

text \<open>\<open>rideSample[i]\<close> past the end of the array is \<open>undefined\<close>, which as a property
  key reads \<open>"undefined"\<close>. The keys of a sample are own keys of \<open>rides\<close>, so the read in
  the loop gives a ride or nothing (lemma \<open>rides_get_sample_at\<close>); a truthy value that is
  not a ride, which \<open>refreshCard\<close> could not render, does not occur there.\<close>

definition sample_at :: "string list \<Rightarrow> nat \<Rightarrow> string" where
  "sample_at sample i = (if i < length sample then sample ! i else ''undefined'')"

definition rideSample :: "state \<Rightarrow> string list" where
  "rideSample s = js_slice (activeRides s - int maxNumRideCards) (object_keys (rides s))"

definition cycle_body :: "string list \<Rightarrow> nat \<Rightarrow> state \<Rightarrow> state" where
  "cycle_body sample i s =
     (case rides_get s (sample_at sample i) of
        RideObject ride \<Rightarrow> refreshCard ride i s
      | JSUndefined \<Rightarrow> s
      | OtherValue b \<Rightarrow> s)"

definition cycle :: "state \<Rightarrow> state" where
  "cycle s =
     (if ws s = Some 1
      then fold (cycle_body (rideSample s)) [0 ..< maxNumRideCards] s
      else s)"

subsection \<open>What can happen to the page\<close>

text \<open>The user toggles the connection, the transport opens or closes the current
  socket, a message arrives, the timer fires. Every socket the page has created keeps
  its \<open>onmessage\<close> handler, so \<open>processRide\<close> is not tied to the state of \<open>ws\<close>.\<close>

datatype action = Connect | SocketOpen | SocketClose | Message ride | Tick

fun step :: "action \<Rightarrow> state \<Rightarrow> state" where
  "step Connect s = connect s"
| "step SocketOpen s = (if ws s = Some 0 then s\<lparr> ws := Some 1 \<rparr> else s)"
| "step SocketClose s = (case ws s of None \<Rightarrow> s | Some r \<Rightarrow> s\<lparr> ws := Some 3 \<rparr>)"
| "step (Message ride) s = processRide ride s"
| "step Tick s = cycle s"

fun run :: "action list \<Rightarrow> state \<Rightarrow> state" where
  "run [] s = s"
| "run (a # as) s = run as (step a s)"

text \<open>A run without a user-initiated disconnect: no \<open>Connect\<close> while the socket is
  open.\<close>

fun disconnect_free :: "action list \<Rightarrow> state \<Rightarrow> bool" where
  "disconnect_free [] s = True"
| "disconnect_free (a # as) s =
     (if a = Connect \<and> ws s = Some 1 then False else disconnect_free as (step a s))"

text \<open>An identifier is a phantom when \<open>rides[k]\<close> is truthy without \<open>k\<close> being in the
  registry: the value comes from the prototype chain. A run is free of phantoms when
  no message carries an identifier that is one when the message arrives.\<close>

definition phantom :: "state \<Rightarrow> string \<Rightarrow> bool" where
  "phantom s k = (obj_get (rides s) k = None \<and> truthy (inherited_get s k))"

fun phantom_free :: "action list \<Rightarrow> state \<Rightarrow> bool" where
  "phantom_free [] s = True"
| "phantom_free (Message r # as) s =
     (if phantom s (ride_id r) then False else phantom_free as (processRide r s))"
| "phantom_free (a # as) s = phantom_free as (step a s)"

subsection \<open>Quantities the properties speak about\<close>

text \<open>The identifiers present in the registry, and the totals recomputed from its
  entries.\<close>

definition registry_ids :: "state \<Rightarrow> string set" where
  "registry_ids s = fst ` set (rides s)"

definition registry_fare :: "state \<Rightarrow> rat" where
  "registry_fare s = sum_list (map (\<lambda>p. meter_reading (snd p)) (rides s))"

definition registry_passengers :: "state \<Rightarrow> int" where
  "registry_passengers s = sum_list (map (\<lambda>p. passenger_count (snd p)) (rides s))"

definition counter_in_sync :: "state \<Rightarrow> bool" where
  "counter_in_sync s = (activeRides s = int (card (registry_ids s)))"

text \<open>The order in which the registry's current entries were created.\<close>

definition creation_order :: "state \<Rightarrow> string list" where
  "creation_order s = map fst (rides s)"

text \<open>The fare per passenger is a local of \<open>updateStats\<close>; it survives only in the
  passengers label.\<close>

definition farePerPassengerShown :: "state \<Rightarrow> jsnum option" where
  "farePerPassengerShown s = map_option (\<lambda>l. snd (snd l)) (passengersLabel s)"

definition quotient_by_zero :: "rat \<Rightarrow> jsnum" where
  "quotient_by_zero a = (if a = 0 then NaN else if 0 < a then PosInfinity else NegInfinity)"

subsection \<open>Concrete streams\<close>

text \<open>An event as the feed sends it; the sequence number is assigned by the page.\<close>

definition event :: "string \<Rightarrow> string \<Rightarrow> int \<Rightarrow> rat \<Rightarrow> ride" where
  "event i st p m =
     \<lparr> ride_id = i, ride_status = st, timestamp = ''2019-01-01T00:00:00Z'',
       latitude = Coordinate ''40.7128'' True, longitude = Coordinate ''-74.0060'' True,
       meter_reading = m, passenger_count = p, sequenceNumber = 0 \<rparr>"

text \<open>A freshly opened connection: the clean reset every scenario starts from.\<close>

definition fresh_session :: state where
  "fresh_session = run [Connect, SocketOpen] page_load"

text \<open>Scenario B: pickup at fare 0.00, meter update at 5.50, dropoff at 12.00.\<close>

definition after_pickup :: state where
  "after_pickup = processRide (event ''1'' ''pickup'' 2 0) fresh_session"

definition after_update :: state where
  "after_update = processRide (event ''1'' ''meter-update'' 2 (11 / 2)) after_pickup"

definition after_dropoff :: state where
  "after_dropoff = processRide (event ''1'' ''dropoff'' 2 12) after_update"

text \<open>Scenario C: a dropoff for an identifier never seen.\<close>

definition unseen_dropoff :: state where
  "unseen_dropoff = processRide (event ''a'' ''dropoff'' 2 12) fresh_session"

text \<open>The same dropoff delivered twice for a tracked ride.\<close>

definition tracked :: state where
  "tracked = processRide (event ''a'' ''pickup'' 2 5) fresh_session"

definition dropped_once :: state where
  "dropped_once = processRide (event ''a'' ''dropoff'' 2 5) tracked"

definition dropped_twice :: state where
  "dropped_twice = processRide (event ''a'' ''dropoff'' 2 5) dropped_once"

text \<open>A ride that is picked up and dropped off with no passengers change and no fare.\<close>

definition emptied :: state where
  "emptied = processRide (event ''a'' ''dropoff'' 2 0)
               (processRide (event ''a'' ''pickup'' 2 0) fresh_session)"

text \<open>Five active rides on an empty container.\<close>

definition five_rides :: state where
  "five_rides =
     run [Message (event ''a'' ''pickup'' 1 0), Message (event ''b'' ''pickup'' 1 0),
          Message (event ''c'' ''pickup'' 1 0), Message (event ''d'' ''pickup'' 1 0),
          Message (event ''e'' ''pickup'' 1 0)] fresh_session"

text \<open>Two rides whose identifiers are array indices, the larger one seen first.\<close>

definition two_rides :: state where
  "two_rides =
     run [Message (event ''2'' ''pickup'' 1 0), Message (event ''1'' ''pickup'' 1 0)]
       fresh_session"

text \<open>A first event whose identifier is a member of \<open>Object.prototype\<close>.\<close>

definition constructor_pickup :: state where
  "constructor_pickup = processRide (event ''constructor'' ''pickup'' 2 0) fresh_session"

text \<open>A session that ends with the user disconnecting, and one that goes on with two
  rides active after the socket has closed.\<close>

definition disconnect_trace :: "action list" where
  "disconnect_trace = [Connect, SocketOpen, Message (event ''a'' ''pickup'' 2 0), Connect]"

definition busy_trace :: "action list" where
  "busy_trace =
     [Connect, SocketOpen, Message (event ''a'' ''pickup'' 2 0), Tick,
      Message (event ''b'' ''pickup'' 1 3), Message (event ''a'' ''enroute'' 2 4),
      Message (event ''c'' ''pickup'' 3 0), Message (event ''b'' ''dropoff'' 1 7),
      SocketClose]"

definition open_with_ride :: state where
  "open_with_ride = run [Connect, SocketOpen, Message (event ''a'' ''pickup'' 2 0)] page_load"

definition closed_with_ride :: state where
  "closed_with_ride = step SocketClose open_with_ride"

text \<open>Registries of three and of ten rides, and one with array indices among its
  identifiers.\<close>

definition three_rides :: state where
  "three_rides =
     run [Message (event ''a'' ''pickup'' 1 0), Message (event ''b'' ''pickup'' 1 0),
          Message (event ''c'' ''pickup'' 1 0)] fresh_session"

definition ten_rides :: state where
  "ten_rides =
     run [Message (event ''a'' ''pickup'' 1 0), Message (event ''b'' ''pickup'' 1 0),
          Message (event ''c'' ''pickup'' 1 0), Message (event ''d'' ''pickup'' 1 0),
          Message (event ''e'' ''pickup'' 1 0), Message (event ''f'' ''pickup'' 1 0),
          Message (event ''g'' ''pickup'' 1 0), Message (event ''h'' ''pickup'' 1 0),
          Message (event ''i'' ''pickup'' 1 0), Message (event ''j'' ''pickup'' 1 0)]
       fresh_session"

definition indexed_rides :: state where
  "indexed_rides =
     run [Message (event ''5'' ''pickup'' 1 0), Message (event ''x'' ''pickup'' 1 0),
          Message (event ''1'' ''pickup'' 1 0)] fresh_session"

section \<open>Properties\<close>

subsection \<open>The registry object\<close>

lemma obj_get_None_iff: "obj_get obj k = None \<longleftrightarrow> k \<notin> fst ` set obj"
  by (induction obj) auto

lemma obj_get_obj_set: "obj_get (obj_set k v obj) k = Some v"
  by (induction obj) auto

lemma obj_set_present: "k \<in> fst ` set obj \<Longrightarrow> map fst (obj_set k v obj) = map fst obj"
  by (induction obj) auto

lemma obj_set_absent: "k \<notin> fst ` set obj \<Longrightarrow> obj_set k v obj = obj @ [(k, v)]"
  by (induction obj) auto

lemma keys_obj_delete: "fst ` set (obj_delete k obj) = fst ` set obj - {k}"
  by (induction obj) auto

text \<open>\<open>rides["__proto__"]\<close> is always truthy, and an own key always is.\<close>

lemma truthy_proto: "truthy (rides_get s ''__proto__'')"
  by (simp add: rides_get_def inherited_get_def ride_field_def object_prototype_get_def
      object_prototype_names_def truthy_def split: option.splits)

lemma truthy_own: "obj_get (rides s) k \<noteq> None \<Longrightarrow> truthy (rides_get s k)"
  by (auto simp: rides_get_def truthy_def)

lemma truthy_rides_get:
  "truthy (rides_get s k) \<longleftrightarrow> obj_get (rides s) k \<noteq> None \<or> phantom s k"
  by (auto simp: rides_get_def phantom_def truthy_def split: option.splits)

lemma falsy_not_proto: "\<not> truthy (rides_get s k) \<Longrightarrow> k \<noteq> ''__proto__''"
  using truthy_proto by blast

lemma falsy_not_own: "\<not> truthy (rides_get s k) \<Longrightarrow> obj_get (rides s) k = None"
  using truthy_own by blast

text \<open>After \<open>rides[k] = v\<close> the read \<open>rides[k]\<close> gives \<open>v\<close>, whatever \<open>k\<close> is.\<close>

lemma rides_get_rides_put: "rides_get (rides_put k v s) k = RideObject v"
  by (auto simp: rides_get_def rides_put_def inherited_get_def ride_field_def obj_get_obj_set
      split: option.splits)

lemma sequence_stores_event:
  "rides_get (snd (sequence r s)) (ride_id r) = RideObject (fst (sequence r s))"
  by (simp add: sequence_def Let_def rides_get_rides_put)

lemma rides_put_frame:
  "activeRides (rides_put k v s) = activeRides s"
  "flashed (rides_put k v s) = flashed s"
  "totalMeter (rides_put k v s) = totalMeter s"
  "totalPassengers (rides_put k v s) = totalPassengers s"
  "totalUpdates (rides_put k v s) = totalUpdates s"
  "messageSeq (rides_put k v s) = messageSeq s"
  "ws (rides_put k v s) = ws s"
  "cards (rides_put k v s) = cards s"
  by (simp_all add: rides_put_def)

lemma rides_rides_put:
  "rides (rides_put k v s) =
     (if k = ''__proto__'' \<and> obj_get (rides s) k = None then rides s
      else obj_set k v (rides s))"
  by (auto simp: rides_put_def)

lemma rides_get_cong:
  "rides s' = rides s \<Longrightarrow> ridesProto s' = ridesProto s \<Longrightarrow> rides_get s' k = rides_get s k"
  by (simp add: rides_get_def inherited_get_def split: option.splits)

lemma sequence_fst: "fst (sequence r s) = r\<lparr> sequenceNumber := messageSeq s \<rparr>"
  by (simp add: sequence_def Let_def)

lemma sequence_frame:
  "activeRides (snd (sequence r s)) = activeRides s"
  "flashed (snd (sequence r s)) = flashed s"
  "totalMeter (snd (sequence r s)) = totalMeter s"
  "totalPassengers (snd (sequence r s)) = totalPassengers s"
  by (simp_all add: sequence_def Let_def rides_put_frame)

subsection \<open>What one event changes\<close>

lemma updateStats_frame:
  "rides (updateStats r b s) = rides s"
  "ridesProto (updateStats r b s) = ridesProto s"
  "activeRides (updateStats r b s) = activeRides s"
  "flashed (updateStats r b s) = flashed s"
  "ws (updateStats r b s) = ws s"
  "cards (updateStats r b s) = cards s"
  by (simp_all add: updateStats_def updateMeterTotal_def Let_def split: js_value.splits)

lemma updateStats_totals:
  "totalMeter (updateStats r b s) = totalMeter (updateMeterTotal r b s)"
  "totalPassengers (updateStats r b s) = totalPassengers (updateMeterTotal r b s)"
proof -
  have same: "rides_get (s\<lparr> totalUpdates := totalUpdates s + 1 \<rparr>) k = rides_get s k" for k
    by (rule rides_get_cong) simp_all
  show "totalMeter (updateStats r b s) = totalMeter (updateMeterTotal r b s)"
    by (simp add: updateStats_def updateMeterTotal_def Let_def same split: js_value.splits)
  show "totalPassengers (updateStats r b s) = totalPassengers (updateMeterTotal r b s)"
    by (simp add: updateStats_def updateMeterTotal_def Let_def same split: js_value.splits)
qed

lemma updateMeterTotal_own_event:
  assumes "rides_get s (ride_id r) = RideObject r" and "ride_status r \<noteq> ''dropoff''"
  shows "totalMeter (updateMeterTotal r False s) = totalMeter s"
  using assms by (simp add: updateMeterTotal_def)

lemma processRide_tracked_update:
  assumes "truthy (rides_get s (ride_id r))" and "ride_status r \<noteq> ''dropoff''"
  shows "processRide r s =
           (if ride_status r = ''pickup''
            then updateStats (fst (sequence r (flashMessage r s))) False
                   (snd (sequence r (flashMessage r s)))
            else updateStats (fst (sequence r s)) False (snd (sequence r s)))"
  using assms by (simp add: processRide_def Let_def case_prod_beta)


lemma processRide_rides:
  "rides (processRide r s) =
     (if \<not> truthy (rides_get s (ride_id r))
      then rides s @ [(ride_id r, r\<lparr> sequenceNumber := messageSeq s \<rparr>)]
      else if ride_status r = ''dropoff'' then obj_delete (ride_id r) (rides s)
      else if ride_id r = ''__proto__'' \<and> obj_get (rides s) (ride_id r) = None then rides s
      else obj_set (ride_id r) (r\<lparr> sequenceNumber := messageSeq s \<rparr>) (rides s))"
proof (cases "truthy (rides_get s (ride_id r))")
  case False
  from falsy_not_proto [OF False] falsy_not_own [OF False] False show ?thesis
    by (simp add: processRide_def updateStats_frame sequence_def Let_def rides_rides_put
        obj_set_absent obj_get_None_iff)
next
  case True
  then show ?thesis
    by (auto simp: processRide_def updateStats_frame sequence_def flashMessage_def Let_def
        rides_put_def)
qed

lemma processRide_activeRides:
  "activeRides (processRide r s) =
     (if \<not> truthy (rides_get s (ride_id r)) then activeRides s + 1
      else if ride_status r = ''dropoff'' then activeRides s - 1
      else activeRides s)"
  by (simp add: processRide_def updateStats_frame sequence_def flashMessage_def Let_def
      rides_put_frame)

text \<open>An update of a tracked ride reads the stored record only after \<open>sequence\<close> has
  replaced it by the event itself, so the difference it adds is zero.\<close>

lemma processRide_update_totalMeter:
  assumes "truthy (rides_get s (ride_id r))" and "ride_status r \<noteq> ''dropoff''"
  shows "totalMeter (processRide r s) = totalMeter s"
proof -
  have step: "totalMeter (updateStats (fst (sequence r t)) False (snd (sequence r t)))
                = totalMeter t" for t
  proof -
    have "rides_get (snd (sequence r t)) (ride_id (fst (sequence r t)))
            = RideObject (fst (sequence r t))"
      using sequence_stores_event [of r t] by (simp add: sequence_fst)
    moreover have "ride_status (fst (sequence r t)) \<noteq> ''dropoff''"
      using assms(2) by (simp add: sequence_fst)
    ultimately show ?thesis
      by (simp add: updateStats_totals updateMeterTotal_own_event sequence_frame)
  qed
  show ?thesis
    using step [of s] step [of "flashMessage r s"]
    by (simp add: processRide_tracked_update [OF assms] flashMessage_def)
qed

lemma processRide_dropoff_totals:
  assumes "ride_status r = ''dropoff''" and "obj_get (rides s) (ride_id r) \<noteq> None"
  shows "totalPassengers (processRide r s) = totalPassengers s - passenger_count r
       \<and> totalMeter (processRide r s) = totalMeter s - meter_reading r"
  using assms truthy_own [OF assms(2)]
  by (simp add: processRide_def updateStats_totals updateMeterTotal_def flashMessage_def
      Let_def del: not_None_eq)

lemma updateStats_density:
  "avgDensity (updateStats r b s) =
     js_div (of_int (totalPassengers (updateStats r b s)))
       (of_int (activeRides (updateStats r b s)))"
  "farePerPassengerShown (updateStats r b s) =
     Some (js_div (totalMeter (updateStats r b s))
             (of_int (totalPassengers (updateStats r b s))))"
  by (simp_all add: updateStats_def farePerPassengerShown_def updateMeterTotal_def Let_def
      split: js_value.splits)

lemma processRide_density:
  "avgDensity (processRide r s) =
     js_div (of_int (totalPassengers (processRide r s)))
       (of_int (activeRides (processRide r s)))"
  "farePerPassengerShown (processRide r s) =
     Some (js_div (totalMeter (processRide r s))
             (of_int (totalPassengers (processRide r s))))"
  by (simp_all add: processRide_def updateStats_density Let_def split: prod.splits)

subsection \<open>The counter and the registry\<close>

lemma processRide_in_sync:
  assumes "counter_in_sync s" and "\<not> phantom s (ride_id r)"
  shows "counter_in_sync (processRide r s)"
proof (cases "truthy (rides_get s (ride_id r))")
  case False
  then have "ride_id r \<notin> fst ` set (rides s)"
    using falsy_not_own [OF False] by (simp add: obj_get_None_iff)
  then have "card (fst ` set (rides (processRide r s))) = Suc (card (fst ` set (rides s)))"
    using False by (simp add: processRide_rides)
  moreover have "activeRides (processRide r s) = activeRides s + 1"
    using False by (simp add: processRide_activeRides)
  ultimately show ?thesis
    using assms(1) by (simp add: counter_in_sync_def registry_ids_def)
next
  case True
  with assms(2) have own: "obj_get (rides s) (ride_id r) \<noteq> None"
    by (simp add: truthy_rides_get del: not_None_eq)
  then have mem: "ride_id r \<in> fst ` set (rides s)"
    by (simp add: obj_get_None_iff)
  show ?thesis
  proof (cases "ride_status r = ''dropoff''")
    case dropoff: True
    have "rides (processRide r s) = obj_delete (ride_id r) (rides s)"
      using True dropoff by (simp add: processRide_rides)
    then have "card (fst ` set (rides (processRide r s))) = card (fst ` set (rides s)) - 1"
      using mem by (simp add: keys_obj_delete)
    moreover have "0 < card (fst ` set (rides s))"
      using mem by (auto simp: card_gt_0_iff)
    moreover have "activeRides (processRide r s) = activeRides s - 1"
      using True dropoff by (simp add: processRide_activeRides)
    ultimately show ?thesis
      using assms(1) by (simp add: counter_in_sync_def registry_ids_def)
  next
    case update: False
    have "rides (processRide r s) =
            obj_set (ride_id r) (r\<lparr> sequenceNumber := messageSeq s \<rparr>) (rides s)"
      using True update own by (simp add: processRide_rides del: not_None_eq)
    then have "map fst (rides (processRide r s)) = map fst (rides s)"
      using mem by (simp add: obj_set_present)
    then have "fst ` set (rides (processRide r s)) = fst ` set (rides s)"
      by (metis set_map)
    moreover have "activeRides (processRide r s) = activeRides s"
      using True update by (simp add: processRide_activeRides)
    ultimately show ?thesis
      using assms(1) by (simp add: counter_in_sync_def registry_ids_def)
  qed
qed

lemma refreshCard_frame:
  "rides (refreshCard r i s) = rides s"
  "ridesProto (refreshCard r i s) = ridesProto s"
  "activeRides (refreshCard r i s) = activeRides s"
  "ws (refreshCard r i s) = ws s"
  by (simp_all add: refreshCard_def)

lemma cycle_body_frame:
  "rides (cycle_body smp i s) = rides s"
  "ridesProto (cycle_body smp i s) = ridesProto s"
  "activeRides (cycle_body smp i s) = activeRides s"
  "ws (cycle_body smp i s) = ws s"
  by (simp_all add: cycle_body_def refreshCard_frame split: js_value.splits)

lemma fold_cycle_body_frame:
  "rides (fold (cycle_body smp) is s) = rides s \<and>
   ridesProto (fold (cycle_body smp) is s) = ridesProto s \<and>
   activeRides (fold (cycle_body smp) is s) = activeRides s \<and>
   ws (fold (cycle_body smp) is s) = ws s"
  by (induction "is" arbitrary: s) (simp_all add: cycle_body_frame)

lemma cycle_frame:
  "rides (cycle s) = rides s" "activeRides (cycle s) = activeRides s" "ws (cycle s) = ws s"
  by (simp_all add: cycle_def fold_cycle_body_frame)

lemma cycle_in_sync: "counter_in_sync s \<Longrightarrow> counter_in_sync (cycle s)"
  by (simp add: counter_in_sync_def registry_ids_def cycle_frame)

lemma connect_opening_in_sync: "ws s \<noteq> Some 1 \<Longrightarrow> counter_in_sync (connect s)"
  by (simp add: connect_def clearStats_def clearCards_def counter_in_sync_def
      registry_ids_def)

lemma connect_closing:
  "ws s = Some 1 \<Longrightarrow> rides (connect s) = [] \<and> activeRides (connect s) = activeRides s"
  by (simp add: connect_def)

lemma run_in_sync:
  "counter_in_sync s \<Longrightarrow> disconnect_free as s \<Longrightarrow> phantom_free as s
     \<Longrightarrow> counter_in_sync (run as s)"
proof (induction as arbitrary: s)
  case Nil
  then show ?case by simp
next
  case (Cons a as)
  from Cons.prems(2) have nd: "\<not> (a = Connect \<and> ws s = Some 1)"
    and df: "disconnect_free as (step a s)"
    by (simp_all split: if_splits)
  have "counter_in_sync (step a s) \<and> phantom_free as (step a s)"
  proof (cases a)
    case Connect
    with nd Cons.prems(3) show ?thesis by (simp add: connect_opening_in_sync)
  next
    case SocketOpen
    with Cons.prems(1,3) show ?thesis
      by (simp add: counter_in_sync_def registry_ids_def)
  next
    case SocketClose
    with Cons.prems(1,3) show ?thesis
      by (simp add: counter_in_sync_def registry_ids_def split: option.splits)
  next
    case (Message r)
    with Cons.prems(3) have "\<not> phantom s (ride_id r)"
      and "phantom_free as (processRide r s)"
      by (simp_all split: if_splits)
    with Message Cons.prems(1) show ?thesis by (simp add: processRide_in_sync)
  next
    case Tick
    with Cons.prems(1,3) show ?thesis by (simp add: cycle_in_sync)
  qed
  with Cons.IH [of "step a s"] df show ?case by simp
qed

subsection \<open>The order of the registry's keys\<close>

lemma length_object_keys: "length (object_keys obj) = length obj"
proof -
  have "length (filter is_index (map fst obj))
          + length (filter (\<lambda>k. \<not> is_index k) (map fst obj)) = length (map fst obj)"
    by (rule sum_length_filter_compl)
  then show ?thesis by (simp add: object_keys_def del: filter_map)
qed

lemma set_object_keys: "set (object_keys obj) = fst ` set obj"
  by (auto simp: object_keys_def)

lemma rideSample_all:
  assumes "activeRides s = int (length (object_keys (rides s)))" and "activeRides s \<le> 4"
  shows "rideSample s = object_keys (rides s)"
  using assms
  by (simp add: rideSample_def js_slice_def maxNumRideCards_def Let_def)

lemma rideSample_last_nine:
  assumes "activeRides s = int (length (object_keys (rides s)))" and "9 \<le> activeRides s"
  shows "rideSample s = drop (length (object_keys (rides s)) - 9) (object_keys (rides s))"
  using assms
  by (simp add: rideSample_def js_slice_def maxNumRideCards_def Let_def nat_diff_distrib)

text \<open>Between five and eight rides the negative start of the slice cuts the window
  down to \<open>9 - n\<close> keys.\<close>

lemma rideSample_short_window:
  assumes "activeRides s = int (length (object_keys (rides s)))"
    and "5 \<le> activeRides s" and "activeRides s \<le> 8"
  shows "length (rideSample s) = 9 - length (object_keys (rides s))"
  using assms
  by (auto simp: rideSample_def js_slice_def maxNumRideCards_def Let_def min_def max_def)

text \<open>The keys the timer reads are own keys or \<open>"undefined"\<close>; the read gives a ride or
  nothing.\<close>

lemma rides_get_sample_at: "rides_get s (sample_at (rideSample s) i) \<noteq> OtherValue b"
proof (cases "i < length (rideSample s)")
  case True
  then have "rideSample s ! i \<in> set (object_keys (rides s))"
    by (metis in_set_dropD nth_mem rideSample_def js_slice_def)
  then have "obj_get (rides s) (rideSample s ! i) \<noteq> None"
    by (simp add: set_object_keys obj_get_None_iff)
  with True show ?thesis
    by (auto simp: rides_get_def sample_at_def)
next
  case False
  then show ?thesis
    by (auto simp: rides_get_def sample_at_def inherited_get_def ride_field_def
        object_prototype_get_def object_prototype_names_def split: option.splits)
qed

text \<open>Sorting a list with one more element at its end: the new element goes behind
  the elements that are not larger.\<close>

lemma insort_key_before:
  "f a \<le> f y \<Longrightarrow> insort_key f a (xs @ y # ys) = insort_key f a xs @ y # ys"
  by (induction xs) auto

lemma insort_key_after:
  "\<forall>z\<in>set xs. f z < f a \<Longrightarrow> f y < f a
     \<Longrightarrow> insort_key f a (xs @ y # ys) = xs @ y # insort_key f a ys"
  by (induction xs) auto

lemma sort_key_snoc:
  fixes f :: "'a \<Rightarrow> int"
  shows "sort_key f (xs @ [x]) =
           filter (\<lambda>y. f y \<le> f x) (sort_key f xs) @ [x]
             @ filter (\<lambda>y. \<not> f y \<le> f x) (sort_key f xs)"
proof (induction xs)
  case Nil
  then show ?case by simp
next
  case (Cons a xs)
  let ?S = "sort_key f xs"
  let ?L = "filter (\<lambda>y. f y \<le> f x) ?S"
  let ?R = "filter (\<lambda>y. \<not> f y \<le> f x) ?S"
  have sorted: "sorted (map f ?S)" by simp
  have unfold: "sort_key f ((a # xs) @ [x]) = insort_key f a (?L @ x # ?R)"
    using Cons.IH by simp
  show ?case
  proof (cases "f a \<le> f x")
    case True
    have "insort_key f a (?L @ x # ?R) = insort_key f a ?L @ x # ?R"
      using True by (rule insort_key_before)
    moreover have "filter (\<lambda>y. f y \<le> f x) (insort_key f a ?S) = insort_key f a ?L"
      using sorted True by (simp add: filter_insort)
    moreover have "filter (\<lambda>y. \<not> f y \<le> f x) (insort_key f a ?S) = ?R"
      using True by (simp add: filter_insort_triv)
    ultimately show ?thesis using unfold by simp
  next
    case False
    have "\<forall>z\<in>set ?L. f z < f a" using False by auto
    moreover have "f x < f a" using False by simp
    ultimately have "insort_key f a (?L @ x # ?R) = ?L @ x # insort_key f a ?R"
      by (rule insort_key_after)
    moreover have "filter (\<lambda>y. f y \<le> f x) (insort_key f a ?S) = ?L"
      using False by (simp add: filter_insort_triv)
    moreover have "filter (\<lambda>y. \<not> f y \<le> f x) (insort_key f a ?S) = insort_key f a ?R"
      using sorted False by (simp add: filter_insort)
    ultimately show ?thesis using unfold by simp
  qed
qed

lemma object_keys_snoc_other:
  "\<not> is_index k \<Longrightarrow> object_keys (obj @ [(k, v)]) = object_keys obj @ [k]"
  by (simp add: object_keys_def)

lemma filter_conj_all:
  "\<forall>j\<in>set xs. A j \<Longrightarrow> filter (\<lambda>j. A j \<and> B j) xs = filter B xs"
  "\<forall>j\<in>set xs. A j \<Longrightarrow> filter (\<lambda>j. \<not> (A j \<and> B j)) xs = filter (\<lambda>j. \<not> B j) xs"
  by (induction xs) auto

lemma filter_conj_none:
  "\<forall>j\<in>set xs. \<not> A j \<Longrightarrow> filter (\<lambda>j. A j \<and> B j) xs = []"
  "\<forall>j\<in>set xs. \<not> A j \<Longrightarrow> filter (\<lambda>j. \<not> (A j \<and> B j)) xs = xs"
  by (induction xs) auto

lemma object_keys_snoc_index:
  assumes "is_index k"
  shows "object_keys (obj @ [(k, v)]) =
           filter (\<lambda>j. is_index j \<and> index_val j \<le> index_val k) (object_keys obj) @ [k]
             @ filter (\<lambda>j. \<not> (is_index j \<and> index_val j \<le> index_val k)) (object_keys obj)"
proof -
  define Idx where "Idx = filter is_index (map fst obj)"
  define Rest where "Rest = filter (\<lambda>j. \<not> is_index j) (map fst obj)"
  define S where "S = sort_key index_val Idx"
  have all_index: "\<forall>j\<in>set S. is_index j" by (simp add: S_def Idx_def)
  have none_index: "\<forall>j\<in>set Rest. \<not> is_index j" by (simp add: Rest_def)
  have keys: "object_keys obj = S @ Rest"
    by (simp add: object_keys_def S_def Idx_def Rest_def)
  have "object_keys (obj @ [(k, v)]) = sort_key index_val (Idx @ [k]) @ Rest"
    using assms by (simp add: object_keys_def Idx_def Rest_def)
  also have "\<dots> = filter (\<lambda>j. index_val j \<le> index_val k) S @ [k]
                     @ filter (\<lambda>j. \<not> index_val j \<le> index_val k) S @ Rest"
    by (simp add: sort_key_snoc S_def)
  finally have new_keys:
    "object_keys (obj @ [(k, v)]) =
       filter (\<lambda>j. index_val j \<le> index_val k) S @ [k]
         @ filter (\<lambda>j. \<not> index_val j \<le> index_val k) S @ Rest" .
  have low: "filter (\<lambda>j. is_index j \<and> index_val j \<le> index_val k) (S @ Rest)
               = filter (\<lambda>j. index_val j \<le> index_val k) S"
    by (simp only: filter_append filter_conj_all(1) [OF all_index]
        filter_conj_none(1) [OF none_index] append_Nil2)
  have high: "filter (\<lambda>j. \<not> (is_index j \<and> index_val j \<le> index_val k)) (S @ Rest)
               = filter (\<lambda>j. \<not> index_val j \<le> index_val k) S @ Rest"
    by (simp only: filter_append filter_conj_all(2) [OF all_index]
        filter_conj_none(2) [OF none_index])
  show ?thesis
    unfolding keys low high new_keys by simp
qed

lemma keys_after_obj_delete:
  "map fst (obj_delete k obj) = filter (\<lambda>j. j \<noteq> k) (map fst obj)"
  by (induction obj) auto

lemma object_keys_obj_delete:
  "object_keys (obj_delete k obj) = filter (\<lambda>j. j \<noteq> k) (object_keys obj)"
proof -
  have "filter is_index (filter (\<lambda>j. j \<noteq> k) (map fst obj))
          = filter (\<lambda>j. j \<noteq> k) (filter is_index (map fst obj))"
    by (simp add: conj_commute)
  moreover have "filter (\<lambda>j. \<not> is_index j) (filter (\<lambda>j. j \<noteq> k) (map fst obj))
          = filter (\<lambda>j. j \<noteq> k) (filter (\<lambda>j. \<not> is_index j) (map fst obj))"
    by (simp add: conj_commute)
  ultimately show ?thesis
    unfolding object_keys_def keys_after_obj_delete filter_append filter_sort by simp
qed

lemma processRide_dropoff_keys:
  assumes "obj_get (rides s) (ride_id r) \<noteq> None" and "ride_status r = ''dropoff''"
  shows "object_keys (rides (processRide r s))
           = filter (\<lambda>j. j \<noteq> ride_id r) (object_keys (rides s))"
  using assms truthy_own [OF assms(1)]
  by (simp add: processRide_rides object_keys_obj_delete del: not_None_eq)

lemma processRide_replace_keeps_order:
  assumes "obj_get (rides s) (ride_id r) \<noteq> None" and "ride_status r \<noteq> ''dropoff''"
  shows "creation_order (processRide r s) = creation_order s"
proof -
  from assms(1) have mem: "ride_id r \<in> fst ` set (rides s)"
    by (simp add: obj_get_None_iff)
  have "rides (processRide r s) =
          obj_set (ride_id r) (r\<lparr> sequenceNumber := messageSeq s \<rparr>) (rides s)"
    using assms truthy_own [OF assms(1)] by (simp add: processRide_rides del: not_None_eq)
  then show ?thesis
    using mem by (simp add: creation_order_def obj_set_present)
qed

lemma processRide_new_rides:
  assumes "\<not> truthy (rides_get s (ride_id r))"
  shows "rides (processRide r s) = rides s @ [(ride_id r, r\<lparr> sequenceNumber := messageSeq s \<rparr>)]"
  using assms by (simp add: processRide_rides)

section \<open>The claims\<close>

text \<open>
  C1. After any sequence of events applied from a clean reset, the running totals of
  fare and passengers should equal the sums of meter reading and passenger count over
  the registry's current entries. The script does not keep this: after the pickup of
  ride 1 at fare 0.00 and its meter update to 5.50 the registry holds 5.50 while
  \<open>totalMeter\<close> is still 0 (the passengers agree).
\<close>

theorem C1_totals_against_registry_after_update:
  "totalMeter after_update = 0 \<and> registry_fare after_update = 11 / 2
   \<and> totalPassengers after_update = 2 \<and> registry_passengers after_update = 2"
  by code_simp

text \<open>
  C2. A non-terminal event for a tracked ride should add to the total fare the
  difference between its meter reading and the stored one, so that the total is 5.50
  after pickup at 0.00 and update to 5.50. In the script the stored reading is 0 before
  the update, the update stores 5.50, and the total stays 0.
\<close>

theorem C2_update_adds_no_delta:
  "map_option meter_reading (obj_get (rides after_pickup) ''1'') = Some 0
   \<and> totalMeter after_pickup = 0
   \<and> map_option meter_reading (obj_get (rides after_update) ''1'') = Some (11 / 2)
   \<and> totalMeter after_update = 0"
  by code_simp

text \<open>
  C3. A dropoff for an identifier that is not in the registry should change nothing.
  The script registers the ride as a new one and subtracts its values from the totals;
  only the notification is withheld.
\<close>

theorem C3_unseen_dropoff_is_registered:
  "activeRides fresh_session = 0 \<and> creation_order fresh_session = []
   \<and> totalPassengers fresh_session = 0 \<and> totalMeter fresh_session = 0
   \<and> activeRides unseen_dropoff = 1 \<and> creation_order unseen_dropoff = [''a'']
   \<and> totalPassengers unseen_dropoff = - 2 \<and> totalMeter unseen_dropoff = - 12
   \<and> flashed unseen_dropoff = flashed fresh_session"
  by code_simp

text \<open>
  C4. The same dropoff applied twice in a row should leave the state of the first
  application. In the script the second application finds the identifier gone, takes
  the event for a new ride, and subtracts its values once more.
\<close>

theorem C4_second_dropoff_changes_state:
  "activeRides dropped_once = 0 \<and> creation_order dropped_once = []
   \<and> totalPassengers dropped_once = 0 \<and> totalMeter dropped_once = 0
   \<and> activeRides dropped_twice = 1 \<and> creation_order dropped_twice = [''a'']
   \<and> totalPassengers dropped_twice = - 2 \<and> totalMeter dropped_twice = - 5"
  by code_simp

text \<open>
  C5, as the script has it. A dropoff for a tracked ride subtracts from the totals the
  passenger count and the meter reading that the dropoff event itself carries.
\<close>

theorem C5_dropoff_subtracts_event_values:
  assumes "ride_status r = ''dropoff''" and "obj_get (rides s) (ride_id r) \<noteq> None"
  shows "totalPassengers (processRide r s) = totalPassengers s - passenger_count r
       \<and> totalMeter (processRide r s) = totalMeter s - meter_reading r"
  using assms by (rule processRide_dropoff_totals)

theorem C5_dropoff_subtracts_event_values_witness:
  "ride_status (event ''1'' ''dropoff'' 2 12) = ''dropoff''
   \<and> obj_get (rides after_update) (ride_id (event ''1'' ''dropoff'' 2 12)) \<noteq> None
   \<and> totalPassengers (processRide (event ''1'' ''dropoff'' 2 12) after_update)
       = totalPassengers after_update - passenger_count (event ''1'' ''dropoff'' 2 12)
   \<and> totalMeter (processRide (event ''1'' ''dropoff'' 2 12) after_update)
       = totalMeter after_update - meter_reading (event ''1'' ''dropoff'' 2 12)"
proof -
  have h1: "ride_status (event ''1'' ''dropoff'' 2 12) = ''dropoff''"
    by code_simp
  have h2: "obj_get (rides after_update) (ride_id (event ''1'' ''dropoff'' 2 12)) \<noteq> None"
    by code_simp
  show ?thesis
    using h1 h2 C5_dropoff_subtracts_event_values [OF h1 h2] by blast
qed

text \<open>
  C5 as stated fails on scenario B: the stored reading of ride 1 is 5.50, the
  dropoff carries 12.00, and 12.00 is what leaves the total.
\<close>

theorem C5_stored_reading_counterexample:
  "map_option meter_reading (obj_get (rides after_update) ''1'') = Some (11 / 2)
   \<and> totalMeter after_update - totalMeter after_dropoff = 12
   \<and> totalMeter after_update - totalMeter after_dropoff \<noteq> 11 / 2"
  by code_simp

text \<open>
  C6, as the script has it. The two quotients are not guarded. Whenever an event leaves
  the count of active rides at zero, the density is the quotient of the passenger total
  by zero: NaN for a zero total, an infinity of its sign otherwise. Whenever an event
  leaves the passenger total at zero, the fare per passenger shown is the quotient of
  the fare total by zero in the same way. Neither is a fault.
\<close>

theorem C6_quotients_are_unguarded:
  "(activeRides (processRide r s) = 0 \<longrightarrow>
      avgDensity (processRide r s)
        = quotient_by_zero (of_int (totalPassengers (processRide r s))))
   \<and> (totalPassengers (processRide r s) = 0 \<longrightarrow>
      farePerPassengerShown (processRide r s)
        = Some (quotient_by_zero (totalMeter (processRide r s))))"
  by (simp add: processRide_density js_div_def quotient_by_zero_def)

theorem C6_quotients_are_unguarded_witness:
  "activeRides emptied = 0
   \<and> avgDensity emptied = quotient_by_zero (of_int (totalPassengers emptied))
   \<and> totalPassengers emptied = 0
   \<and> farePerPassengerShown emptied = Some (quotient_by_zero (totalMeter emptied))"
proof -
  have h1: "activeRides emptied = 0" by code_simp
  have h2: "totalPassengers emptied = 0" by code_simp
  show ?thesis
    using h1 h2
      C6_quotients_are_unguarded [of "event ''a'' ''dropoff'' 2 0"
        "processRide (event ''a'' ''pickup'' 2 0) fresh_session"]
    by (simp add: emptied_def)
qed

text \<open>
  C6 as stated fails when the only active ride is dropped off: no ride and
  no passenger is left, and both the density and the fare per passenger are NaN.
\<close>

theorem C6_zero_rides_counterexample:
  "activeRides emptied = 0 \<and> totalPassengers emptied = 0
   \<and> avgDensity emptied = NaN \<and> farePerPassengerShown emptied = Some NaN"
  by code_simp

text \<open>
  C7, as the script has it. The counter of active rides equals the number of
  identifiers in the registry when the page is loaded, after every \<open>connect\<close> that
  opens a connection, and from any such state after every run of events, socket
  openings and closings, timer ticks and opening connects in which no event arrives
  with an identifier that \<open>rides[id]\<close> finds on the prototype chain without its being
  in the registry. A \<open>connect\<close> on an open connection (the user disconnects) empties
  the registry and leaves the counter as it was.
\<close>

theorem C7_counter_in_sync_until_disconnect:
  "counter_in_sync page_load
   \<and> (counter_in_sync s \<and> disconnect_free as s \<and> phantom_free as s
        \<longrightarrow> counter_in_sync (run as s))
   \<and> (ws t \<noteq> Some 1 \<longrightarrow> counter_in_sync (connect t))
   \<and> (ws u = Some 1 \<longrightarrow>
        registry_ids (connect u) = {} \<and> activeRides (connect u) = activeRides u)"
proof -
  have "counter_in_sync page_load"
    by (simp add: counter_in_sync_def registry_ids_def page_load_def)
  moreover have "registry_ids (connect u) = {}" if "ws u = Some 1"
    using connect_closing [OF that] by (simp add: registry_ids_def)
  ultimately show ?thesis
    using run_in_sync connect_opening_in_sync connect_closing by blast
qed

theorem C7_counter_in_sync_until_disconnect_witness:
  "counter_in_sync page_load \<and> disconnect_free busy_trace page_load
   \<and> phantom_free busy_trace page_load
   \<and> counter_in_sync (run busy_trace page_load)
   \<and> activeRides (run busy_trace page_load) = 2
   \<and> creation_order (run busy_trace page_load) = [''a'', ''c'']
   \<and> ws closed_with_ride \<noteq> Some 1 \<and> activeRides closed_with_ride = 1
   \<and> counter_in_sync (connect closed_with_ride)
   \<and> ws open_with_ride = Some 1 \<and> activeRides open_with_ride = 1
   \<and> registry_ids (connect open_with_ride) = {}
   \<and> activeRides (connect open_with_ride) = activeRides open_with_ride"
proof -
  have h1: "disconnect_free busy_trace page_load" by code_simp
  have h2: "phantom_free busy_trace page_load" by code_simp
  have h3: "ws closed_with_ride \<noteq> Some 1" by code_simp
  have h4: "ws open_with_ride = Some 1" by code_simp
  have h5: "activeRides (run busy_trace page_load) = 2
            \<and> creation_order (run busy_trace page_load) = [''a'', ''c'']
            \<and> activeRides closed_with_ride = 1 \<and> activeRides open_with_ride = 1"
    by code_simp
  show ?thesis
    using h1 h2 h3 h4 h5
      C7_counter_in_sync_until_disconnect
        [of page_load busy_trace closed_with_ride open_with_ride]
    by blast
qed

text \<open>
  C7 as stated fails after a user-initiated disconnect: with one ride active, the
  registry is emptied and the counter still reads 1. It also fails when the first event
  of a session carries the identifier \<open>constructor\<close>: the event is taken for one of a
  tracked ride and stored without being counted.
\<close>

theorem C7_counter_out_of_sync_counterexample:
  "activeRides (run disconnect_trace page_load) = 1
   \<and> registry_ids (run disconnect_trace page_load) = {}
   \<and> \<not> counter_in_sync (run disconnect_trace page_load)
   \<and> activeRides constructor_pickup = 0
   \<and> creation_order constructor_pickup = [''constructor'']
   \<and> \<not> counter_in_sync constructor_pickup"
  by code_simp




text \<open>
  C9. On a tick of an open connection with fewer active rides than cards, every active
  ride should be refreshed in a slot of its own. With five active rides and an empty
  container the script refreshes four slots, with the last four rides; the first ride
  gets no card.
\<close>

theorem C9_five_rides_refresh_four_slots:
  "ws five_rides = Some 1 \<and> activeRides five_rides = 5
   \<and> creation_order five_rides = [''a'', ''b'', ''c'', ''d'', ''e'']
   \<and> cards five_rides = []
   \<and> rideSample five_rides = [''b'', ''c'', ''d'', ''e'']
   \<and> map card_index (cards (cycle five_rides)) = [0, 1, 2, 3]
   \<and> map (ride_id \<circ> card_ride) (cards (cycle five_rides)) = [''b'', ''c'', ''d'', ''e'']"
  by code_simp

text \<open>
  C10, as the script has it. The window of a tick is an end of \<open>Object.keys(rides)\<close>:
  with the counter equal to the number of keys, it is all of them for up to four rides
  and the last nine for nine or more. A later event for a tracked ride that is not a
  dropoff leaves that list as it is; its dropoff takes the identifier out and leaves
  the others in their order. A first event that is not a dropoff, for an identifier
  that \<open>rides[id]\<close> does not find, puts the identifier at the end of the list when
  it is not an array index, and otherwise behind the array indices that are not larger
  and before all other keys. So the list has the array indices first, in ascending
  order, then the other identifiers in the order in which their current entries were
  created, and the window is not one of most recently touched rides.
\<close>

theorem C10_window_is_end_of_object_keys:
  "(activeRides small = int (length (object_keys (rides small))) \<and> activeRides small \<le> 4
      \<longrightarrow> rideSample small = object_keys (rides small))
   \<and> (activeRides large = int (length (object_keys (rides large))) \<and> 9 \<le> activeRides large
      \<longrightarrow> rideSample large
            = drop (length (object_keys (rides large)) - 9) (object_keys (rides large)))
   \<and> (obj_get (rides t) (ride_id r) \<noteq> None \<and> ride_status r \<noteq> ''dropoff''
      \<longrightarrow> object_keys (rides (processRide r t)) = object_keys (rides t))
   \<and> (obj_get (rides w) (ride_id d) \<noteq> None \<and> ride_status d = ''dropoff''
      \<longrightarrow> object_keys (rides (processRide d w))
            = filter (\<lambda>j. j \<noteq> ride_id d) (object_keys (rides w)))
   \<and> (\<not> truthy (rides_get u (ride_id q)) \<and> ride_status q \<noteq> ''dropoff''
        \<and> \<not> is_index (ride_id q)
      \<longrightarrow> object_keys (rides (processRide q u)) = object_keys (rides u) @ [ride_id q])
   \<and> (\<not> truthy (rides_get v (ride_id p)) \<and> ride_status p \<noteq> ''dropoff''
        \<and> is_index (ride_id p)
      \<longrightarrow> object_keys (rides (processRide p v))
            = filter (\<lambda>j. is_index j \<and> index_val j \<le> index_val (ride_id p))
                (object_keys (rides v))
              @ [ride_id p]
              @ filter (\<lambda>j. \<not> (is_index j \<and> index_val j \<le> index_val (ride_id p)))
                  (object_keys (rides v)))"
proof -
  have replaced: "object_keys (rides (processRide r t)) = object_keys (rides t)"
    if "obj_get (rides t) (ride_id r) \<noteq> None" and "ride_status r \<noteq> ''dropoff''"
    using processRide_replace_keeps_order [OF that]
    by (simp add: creation_order_def object_keys_def)
  have last: "object_keys (rides (processRide q u)) = object_keys (rides u) @ [ride_id q]"
    if "\<not> truthy (rides_get u (ride_id q))" and "\<not> is_index (ride_id q)"
    using that by (simp add: processRide_new_rides object_keys_snoc_other)
  have placed: "object_keys (rides (processRide p v))
            = filter (\<lambda>j. is_index j \<and> index_val j \<le> index_val (ride_id p))
                (object_keys (rides v))
              @ [ride_id p]
              @ filter (\<lambda>j. \<not> (is_index j \<and> index_val j \<le> index_val (ride_id p)))
                  (object_keys (rides v))"
    if "\<not> truthy (rides_get v (ride_id p))" and "is_index (ride_id p)"
    using that object_keys_snoc_index [of "ride_id p" "rides v"]
    by (simp add: processRide_new_rides)
  show ?thesis
    using rideSample_all [of small] rideSample_last_nine [of large] replaced last placed
      processRide_dropoff_keys [of w d]
    by blast
qed

theorem C10_window_is_end_of_object_keys_witness:
  "activeRides three_rides = int (length (object_keys (rides three_rides)))
   \<and> activeRides three_rides \<le> 4
   \<and> rideSample three_rides = [''a'', ''b'', ''c'']
   \<and> activeRides ten_rides = int (length (object_keys (rides ten_rides)))
   \<and> 9 \<le> activeRides ten_rides
   \<and> rideSample ten_rides = [''b'', ''c'', ''d'', ''e'', ''f'', ''g'', ''h'', ''i'', ''j'']
   \<and> obj_get (rides three_rides) (ride_id (event ''a'' ''enroute'' 1 3)) \<noteq> None
   \<and> ride_status (event ''a'' ''enroute'' 1 3) \<noteq> ''dropoff''
   \<and> object_keys (rides (processRide (event ''a'' ''enroute'' 1 3) three_rides))
       = [''a'', ''b'', ''c'']
   \<and> obj_get (rides three_rides) (ride_id (event ''b'' ''dropoff'' 1 3)) \<noteq> None
   \<and> ride_status (event ''b'' ''dropoff'' 1 3) = ''dropoff''
   \<and> object_keys (rides (processRide (event ''b'' ''dropoff'' 1 3) three_rides))
       = [''a'', ''c'']
   \<and> \<not> truthy (rides_get three_rides (ride_id (event ''d'' ''pickup'' 1 0)))
   \<and> \<not> is_index (ride_id (event ''d'' ''pickup'' 1 0))
   \<and> object_keys (rides (processRide (event ''d'' ''pickup'' 1 0) three_rides))
       = [''a'', ''b'', ''c'', ''d'']
   \<and> \<not> truthy (rides_get indexed_rides (ride_id (event ''3'' ''pickup'' 1 0)))
   \<and> is_index (ride_id (event ''3'' ''pickup'' 1 0))
   \<and> object_keys (rides indexed_rides) = [''1'', ''5'', ''x'']
   \<and> object_keys (rides (processRide (event ''3'' ''pickup'' 1 0) indexed_rides))
       = [''1'', ''3'', ''5'', ''x'']"
proof -
  have h1: "activeRides three_rides = int (length (object_keys (rides three_rides)))
            \<and> activeRides three_rides \<le> 4"
    by code_simp
  have h2: "activeRides ten_rides = int (length (object_keys (rides ten_rides)))
            \<and> 9 \<le> activeRides ten_rides"
    by code_simp
  have h3: "obj_get (rides three_rides) (ride_id (event ''a'' ''enroute'' 1 3)) \<noteq> None
            \<and> ride_status (event ''a'' ''enroute'' 1 3) \<noteq> ''dropoff''"
    by code_simp
  have h4: "\<not> truthy (rides_get three_rides (ride_id (event ''d'' ''pickup'' 1 0)))
            \<and> ride_status (event ''d'' ''pickup'' 1 0) \<noteq> ''dropoff''
            \<and> \<not> is_index (ride_id (event ''d'' ''pickup'' 1 0))"
    by code_simp
  have h5: "\<not> truthy (rides_get indexed_rides (ride_id (event ''3'' ''pickup'' 1 0)))
            \<and> ride_status (event ''3'' ''pickup'' 1 0) \<noteq> ''dropoff''
            \<and> is_index (ride_id (event ''3'' ''pickup'' 1 0))"
    by code_simp
  have e1: "object_keys (rides three_rides) = [''a'', ''b'', ''c'']"
    by code_simp
  have e2: "drop (length (object_keys (rides ten_rides)) - 9) (object_keys (rides ten_rides))
              = [''b'', ''c'', ''d'', ''e'', ''f'', ''g'', ''h'', ''i'', ''j'']"
    by code_simp
  have e3: "object_keys (rides indexed_rides) = [''1'', ''5'', ''x'']"
    by code_simp
  have e4: "filter (\<lambda>j. is_index j \<and> index_val j \<le> index_val (ride_id (event ''3'' ''pickup'' 1 0)))
              [''1'', ''5'', ''x'']
            @ [ride_id (event ''3'' ''pickup'' 1 0)]
            @ filter (\<lambda>j. \<not> (is_index j \<and> index_val j \<le> index_val (ride_id (event ''3'' ''pickup'' 1 0))))
                [''1'', ''5'', ''x'']
            = [''1'', ''3'', ''5'', ''x'']"
    by code_simp
  have e5: "ride_id (event ''d'' ''pickup'' 1 0) = ''d''"
    by code_simp
  have h6: "obj_get (rides three_rides) (ride_id (event ''b'' ''dropoff'' 1 3)) \<noteq> None
            \<and> ride_status (event ''b'' ''dropoff'' 1 3) = ''dropoff''"
    by code_simp
  have e6: "filter (\<lambda>j. j \<noteq> ride_id (event ''b'' ''dropoff'' 1 3)) [''a'', ''b'', ''c'']
              = [''a'', ''c'']"
    by code_simp
  note inst =
    C10_window_is_end_of_object_keys
      [of three_rides ten_rides three_rides "event ''a'' ''enroute'' 1 3"
          three_rides "event ''b'' ''dropoff'' 1 3"
          three_rides "event ''d'' ''pickup'' 1 0" indexed_rides "event ''3'' ''pickup'' 1 0"]
  have c1: "rideSample three_rides = [''a'', ''b'', ''c'']"
  proof -
    have "rideSample three_rides = object_keys (rides three_rides)"
      using inst h1 by blast
    then show ?thesis by (simp only: e1)
  qed
  have c2: "rideSample ten_rides = [''b'', ''c'', ''d'', ''e'', ''f'', ''g'', ''h'', ''i'', ''j'']"
  proof -
    have "rideSample ten_rides
            = drop (length (object_keys (rides ten_rides)) - 9) (object_keys (rides ten_rides))"
      using inst h2 by blast
    then show ?thesis by (simp only: e2)
  qed
  have c3: "object_keys (rides (processRide (event ''a'' ''enroute'' 1 3) three_rides))
              = [''a'', ''b'', ''c'']"
  proof -
    have "object_keys (rides (processRide (event ''a'' ''enroute'' 1 3) three_rides))
            = object_keys (rides three_rides)"
      using inst h3 by blast
    then show ?thesis by (simp only: e1)
  qed
  have c4: "object_keys (rides (processRide (event ''d'' ''pickup'' 1 0) three_rides))
              = [''a'', ''b'', ''c'', ''d'']"
  proof -
    have "object_keys (rides (processRide (event ''d'' ''pickup'' 1 0) three_rides))
            = object_keys (rides three_rides) @ [ride_id (event ''d'' ''pickup'' 1 0)]"
      using inst h4 by blast
    then show ?thesis by (simp only: e1 e5 append.simps)
  qed
  have c5: "object_keys (rides (processRide (event ''3'' ''pickup'' 1 0) indexed_rides))
              = [''1'', ''3'', ''5'', ''x'']"
  proof -
    have "object_keys (rides (processRide (event ''3'' ''pickup'' 1 0) indexed_rides))
          = filter (\<lambda>j. is_index j \<and> index_val j \<le> index_val (ride_id (event ''3'' ''pickup'' 1 0)))
              (object_keys (rides indexed_rides))
            @ [ride_id (event ''3'' ''pickup'' 1 0)]
            @ filter (\<lambda>j. \<not> (is_index j \<and> index_val j \<le> index_val (ride_id (event ''3'' ''pickup'' 1 0))))
                (object_keys (rides indexed_rides))"
      using inst h5 by blast
    then show ?thesis by (simp only: e3 e4)
  qed
  have c6: "object_keys (rides (processRide (event ''b'' ''dropoff'' 1 3) three_rides))
              = [''a'', ''c'']"
  proof -
    have "object_keys (rides (processRide (event ''b'' ''dropoff'' 1 3) three_rides))
            = filter (\<lambda>j. j \<noteq> ride_id (event ''b'' ''dropoff'' 1 3))
                (object_keys (rides three_rides))"
      using inst h6 by blast
    then show ?thesis by (simp only: e1 e6)
  qed
  show ?thesis
    using h1 h2 h3 h4 h5 h6 c1 c2 c3 c4 c5 c6 e3 by blast
qed

text \<open>
  C10 as stated fails for identifiers that are array indices: ride 2 is seen
  before ride 1, and the window lists ride 1 first.
\<close>

theorem C10_key_order_counterexample:
  "creation_order two_rides = [''2'', ''1''] \<and> activeRides two_rides = 2
   \<and> rideSample two_rides = [''1'', ''2'']"
  by code_simp

end
